theory Spec2Isabelle
  imports
    Main
    "HOL-Library.Sublist"
    "HOL-Library.Multiset"
    "HOL-Library.Char_ord"
    "HOL-Library.List_Lexorder"
begin

section \<open>The recommendation engine of the Local Housing Policy Compass\<close>

text \<open>
  The two application variants (\<^verbatim>\<open>appV3.py\<close>, \<^verbatim>\<open>appV4.py\<close>) contain the same three
  functions \<^verbatim>\<open>normalize_inputs\<close>, \<^verbatim>\<open>determine_buckets\<close> and
  \<^verbatim>\<open>apply_priority_overlay\<close>, and the same button handler up to the text of one
  warning. The code works on Python strings throughout: the answer codes
  (\<^verbatim>\<open>"Minimal"\<close>, \<^verbatim>\<open>"Weak"\<close>, ...) and the category labels
  (\<^verbatim>\<open>"Foundation-Building (FB)"\<close>, ...) are string literals compared with \<^verbatim>\<open>==\<close> and
  \<^verbatim>\<open>in\<close>. The model keeps them as values of type \<^typ>\<open>string\<close>.

  A \<^typ>\<open>string\<close> is a list of 8-bit characters; a raw answer is read as its UTF-8
  encoding. All keywords and labels are ASCII, and an ASCII byte never occurs inside
  the encoding of another code point, so containment of a keyword and the order of
  the labels are the same on bytes as on Python's code points.
\<close>

subsection \<open>Category labels and answer codes\<close>

abbreviation FB :: string where "FB \<equiv> ''Foundation-Building (FB)''"
abbreviation PS :: string where "PS \<equiv> ''Preservation & Stabilization (PS)''"
abbreviation RS :: string where "RS \<equiv> ''Regulatory Supply (RS)''"
abbreviation DI :: string where "DI \<equiv> ''Development Incentives (DI)''"
abbreviation FA :: string where "FA \<equiv> ''Financial Assistance (FA)''"
abbreviation TP :: string where "TP \<equiv> ''Tenant Protections (TP)''"

text \<open>The list \<^verbatim>\<open>base_order\<close> local to \<^verbatim>\<open>determine_buckets\<close>.\<close>

definition base_order :: "string list" where
  "base_order = [FB, PS, RS, DI, FA, TP]"

text \<open>
  The codes that \<^verbatim>\<open>normalize_inputs\<close> can return for each of the four answers, in
  the order of the radio options.
\<close>

definition authority_codes :: "string list" where
  "authority_codes = [''Strong'', ''Limited'', ''Unsure'']"

definition capacity_codes :: "string list" where
  "capacity_codes = [''Strong'', ''Moderate'', ''Minimal'']"

definition market_codes :: "string list" where
  "market_codes = [''Hot'', ''Stable'', ''Weak'']"

definition challenge_codes :: "string list" where
  "challenge_codes = [''Supply'', ''Affordability'', ''Quality'', ''Multiple'']"

subsection \<open>Python primitives used by the engine\<close>

text \<open>
  \<^verbatim>\<open>sub in s\<close> on two Python strings: \<^verbatim>\<open>sub\<close> occurs in \<^verbatim>\<open>s\<close> as a contiguous
  block. The search tries every start position from the left.
\<close>

fun py_in :: "string \<Rightarrow> string \<Rightarrow> bool" where
  "py_in sub [] = (sub = [])"
| "py_in sub (c # s) = (prefix sub (c # s) \<or> py_in sub s)"

text \<open>
  A Python \<^verbatim>\<open>set\<close> of strings is a finite set with a hidden iteration order: the
  order depends on the string hashes, which CPython salts with a per-process random
  seed. The model makes that hidden state a parameter: a \<open>hash_seed\<close> assigns every
  string a hash value, and iterating over a set visits its elements by increasing
  hash (elements of equal hash in some fixed order). Every enumeration of a finite
  set arises from some seed, so the model covers whatever order the interpreter uses.
\<close>

type_synonym hash_seed = "string \<Rightarrow> nat"

definition py_iter :: "hash_seed \<Rightarrow> string set \<Rightarrow> string list" where
  "py_iter h S = sort_key h (sorted_list_of_set S)"

text \<open>
  \<^verbatim>\<open>sorted(S)\<close> on a set: the elements in iteration order, sorted ascending. Python
  compares strings lexicographically by code point, which is the order of
  \<^typ>\<open>string\<close> here.
\<close>

definition py_sorted :: "hash_seed \<Rightarrow> string set \<Rightarrow> string list" where
  "py_sorted h S = sort (py_iter h S)"

text \<open>\<^verbatim>\<open>sep.join(xs)\<close>.\<close>

fun join :: "string \<Rightarrow> string list \<Rightarrow> string" where
  "join sep [] = []"
| "join sep [x] = x"
| "join sep (x # y # ys) = x @ sep @ join sep (y # ys)"

subsection \<open>\<^verbatim>\<open>normalize_inputs\<close>\<close>

definition normalize_inputs ::
  "string \<Rightarrow> string \<Rightarrow> string \<Rightarrow> string \<Rightarrow> string \<times> string \<times> string \<times> string" where
  "normalize_inputs authority capacity market challenge =
    (let a = (if py_in ''Unsure'' authority then ''Unsure''
              else (if py_in ''Limited'' authority then ''Limited'' else ''Strong''));
         c = (if py_in ''Minimal'' capacity then ''Minimal''
              else (if py_in ''Moderate'' capacity then ''Moderate'' else ''Strong''));
         m = (if py_in ''Weak'' market then ''Weak''
              else (if py_in ''Stable'' market then ''Stable'' else ''Hot''));
         ch = (if py_in ''Multiple'' challenge then ''Multiple''
               else (if py_in ''Quality'' challenge then ''Quality''
                     else (if py_in ''Affordability'' challenge then ''Affordability''
                           else ''Supply'')))
     in (a, c, m, ch))"

subsection \<open>\<^verbatim>\<open>determine_buckets\<close>\<close>

text \<open>
  The function has three \<^verbatim>\<open>return\<close> statements: the minimal-capacity override, the
  weak-market baseline (which returns \<^verbatim>\<open>sorted(buckets)\<close>) and the general case, where
  four independent \<^verbatim>\<open>if challenge == ...\<close> blocks update the set \<^verbatim>\<open>buckets\<close> one after
  the other and the result is \<^verbatim>\<open>[b for b in base_order if b in buckets]\<close>. The
  successive values of \<^verbatim>\<open>buckets\<close> are \<open>b0\<close>, ..., \<open>b4\<close>.
\<close>

definition determine_buckets ::
  "hash_seed \<Rightarrow> string \<Rightarrow> string \<Rightarrow> string \<Rightarrow> string \<Rightarrow> string list \<times> string" where
  "determine_buckets h authority capacity market challenge =
    (if capacity = ''Minimal'' then
       ([FB], ''Minimal capacity: prioritize low-cost/no-cost foundation-building activities.'')
     else if market = ''Weak'' then
       (let b0 = insert FB {};
            b1 = (if capacity \<in> set [''Moderate'', ''Strong'']
                     \<and> challenge \<in> set [''Quality'', ''Multiple'']
                  then insert PS b0 else b0)
        in (py_sorted h b1,
            ''Weak market: prioritize foundation-building; add preservation if capacity and quality risk exist.''))
     else
       (let limited_authority = (authority = ''Limited'');
            b0 = {};
            b1 = (if challenge = ''Supply'' then
                    (if limited_authority then insert DI b0
                     else b0 \<union> set [RS, DI])
                  else b0);
            b2 = (if challenge = ''Affordability'' then
                    (let s0 = insert FA b1;
                         s1 = (if authority = ''Strong'' then insert TP s0 else s0);
                         s2 = (if \<not> limited_authority then insert RS s1 else s1)
                     in insert DI s2)
                  else b1);
            b3 = (if challenge = ''Quality'' then
                    (let s0 = insert PS b2;
                         s1 = (if authority = ''Strong'' then insert RS s0 else s0)
                     in insert DI s1)
                  else b2);
            b4 = (if challenge = ''Multiple'' then
                    (let s0 = (if capacity \<in> set [''Moderate'', ''Strong'']
                               then insert PS b3 else b3);
                         s1 = insert FA s0
                     in (if authority = ''Strong'' then s1 \<union> set [RS, DI, TP]
                         else insert DI s1))
                  else b3)
        in (filter (\<lambda>b. b \<in> b4) base_order,
            ''Recommendation generated using core logic.'')))"

subsection \<open>\<^verbatim>\<open>apply_priority_overlay\<close>\<close>

text \<open>
  Both loops of the function have the same body,
  \<^verbatim>\<open>if x not in final_order: final_order.append(x)\<close>; \<open>add_missing\<close> is that loop, run
  over a list \<open>xs\<close> from a given value of \<^verbatim>\<open>final_order\<close>.
\<close>

fun add_missing :: "string list \<Rightarrow> string list \<Rightarrow> string list" where
  "add_missing final_order [] = final_order"
| "add_missing final_order (x # xs) =
     add_missing (if x \<notin> set final_order then final_order @ [x] else final_order) xs"

definition apply_priority_overlay :: "string \<Rightarrow> string list \<Rightarrow> string list \<times> string list" where
  "apply_priority_overlay challenge_code buckets =
    (let bucket_set = set buckets;
         priority_order =
           (if challenge_code = ''Affordability'' then
              (if FA \<in> bucket_set then [FA] else []) @ (if TP \<in> bucket_set then [TP] else [])
            else if challenge_code = ''Supply'' then
              (if RS \<in> bucket_set then [RS] else []) @ (if DI \<in> bucket_set then [DI] else [])
            else []);
         final_order = add_missing [] priority_order;
         final_order = add_missing final_order buckets
     in (final_order, priority_order))"

subsection \<open>The button handler\<close>

text \<open>
  The handler normalises the four answers; if the authority code is \<^verbatim>\<open>"Unsure"\<close> it
  shows a warning and calls \<^verbatim>\<open>st.stop()\<close>, which ends the script run. Otherwise it
  calls the determiner and the overlay, displays the priority list and the remaining
  categories, and builds the one-row export table. The stop is the error value; the
  warning text is the only difference between the two variants.
\<close>

datatype error = UnresolvedAuthority string

record recommendation =
  r_inputs :: "string \<times> string \<times> string \<times> string"
  r_final :: "string list"
  r_priority :: "string list"
  r_remaining :: "string list"
  r_note :: string
  csv_recommendations :: string
  csv_priority_order :: string

definition warning_v3 :: string where
  "warning_v3 = ''Please check state law before proceeding; your legal authority is unclear.''"

definition warning_v4 :: string where
  "warning_v4 = ''Please check state law before proceeding.''"

definition generate_recommendations ::
  "string \<Rightarrow> hash_seed \<Rightarrow> string \<Rightarrow> string \<Rightarrow> string \<Rightarrow> string \<Rightarrow> error + recommendation" where
  "generate_recommendations warning h authority capacity market challenge =
    (case normalize_inputs authority capacity market challenge of
       (a, c, m, ch) \<Rightarrow>
         if a = ''Unsure'' then Inl (UnresolvedAuthority warning)
         else
           (case determine_buckets h a c m ch of
              (base_buckets, note) \<Rightarrow>
                (case apply_priority_overlay ch base_buckets of
                   (final_buckets, priority_list) \<Rightarrow>
                     Inr \<lparr> r_inputs = (a, c, m, ch),
                           r_final = final_buckets,
                           r_priority = priority_list,
                           r_remaining = filter (\<lambda>b. b \<notin> set priority_list) final_buckets,
                           r_note = note,
                           csv_recommendations = join ''; '' final_buckets,
                           csv_priority_order = join ''; '' priority_list \<rparr>)))"

section \<open>Properties\<close>

subsection \<open>The Python primitives\<close>

text \<open>
  \<open>py_in\<close> is containment as a contiguous block. Sorting a set gives the same list
  under every seed, although the iteration order itself changes with the seed.
\<close>

lemma py_in_sublist: "py_in sub s \<longleftrightarrow> sublist sub s"
  by (induction s) (auto simp: sublist_Cons_right)

lemma py_iter_enumerates:
  assumes "finite S"
  shows "set (py_iter h S) = S" and "distinct (py_iter h S)"
  using assms by (simp_all add: py_iter_def)

lemma py_sorted_seed_free:
  assumes "finite S"
  shows "py_sorted h S = sorted_list_of_set S"
proof (rule sorted_distinct_set_unique)
  show "sorted (py_sorted h S)" by (simp add: py_sorted_def)
  show "distinct (py_sorted h S)"
    using assms by (simp add: py_sorted_def py_iter_enumerates)
  show "sorted (sorted_list_of_set S)" by simp
  show "distinct (sorted_list_of_set S)" by simp
  show "set (py_sorted h S) = set (sorted_list_of_set S)"
    using assms by (simp add: py_sorted_def py_iter_enumerates)
qed

lemma py_iter_depends_on_seed:
  "py_iter (\<lambda>s. length s) {FB, PS} = [FB, PS]"
  "py_iter (\<lambda>s. 100 - length s) {FB, PS} = [PS, FB]"
  by (simp_all add: py_iter_def)

subsection \<open>The three branches of the determiner\<close>

lemma weak_branch_lists:
  "py_sorted h {FB} = [FB]" "py_sorted h {PS, FB} = [FB, PS]"
  by (simp_all add: py_sorted_seed_free)

lemma determine_minimal:
  "determine_buckets h a ''Minimal'' m ch =
    ([FB], ''Minimal capacity: prioritize low-cost/no-cost foundation-building activities.'')"
  by (simp add: determine_buckets_def)

lemma determine_weak:
  assumes "c \<noteq> ''Minimal''"
  shows "determine_buckets h a c ''Weak'' ch =
    (if (c = ''Moderate'' \<or> c = ''Strong'') \<and> (ch = ''Quality'' \<or> ch = ''Multiple'')
     then [FB, PS] else [FB],
     ''Weak market: prioritize foundation-building; add preservation if capacity and quality risk exist.'')"
  using assms by (simp add: determine_buckets_def weak_branch_lists)

lemma determine_seed_free:
  "determine_buckets h1 a c m ch = determine_buckets h2 a c m ch"
proof (cases "c = ''Minimal''")
  case True
  then show ?thesis by (simp only: determine_minimal)
next
  case False
  show ?thesis
  proof (cases "m = ''Weak''")
    case True
    with False show ?thesis by (simp add: determine_weak)
  next
    case nw: False
    with False show ?thesis by (simp only: determine_buckets_def if_False)
  qed
qed

lemma distinct_base_order: "distinct base_order"
  by (simp add: base_order_def)

lemma determine_supply:
  assumes "c \<noteq> ''Minimal''" "m \<noteq> ''Weak''"
  shows "fst (determine_buckets h a c m ''Supply'') = (if a = ''Limited'' then [DI] else [RS, DI])"
  using assms by (simp add: determine_buckets_def base_order_def)

lemma determine_affordability:
  assumes "c \<noteq> ''Minimal''" "m \<noteq> ''Weak''"
  shows "fst (determine_buckets h a c m ''Affordability'') =
    (if a = ''Strong'' then [RS, DI, FA, TP] else if a = ''Limited'' then [DI, FA] else [RS, DI, FA])"
  using assms by (simp add: determine_buckets_def base_order_def)

lemma determine_quality:
  assumes "c \<noteq> ''Minimal''" "m \<noteq> ''Weak''"
  shows "fst (determine_buckets h a c m ''Quality'') =
    (if a = ''Strong'' then [PS, RS, DI] else [PS, DI])"
  using assms by (simp add: determine_buckets_def base_order_def)

lemma determine_multiple:
  assumes "c \<noteq> ''Minimal''" "m \<noteq> ''Weak''"
  shows "fst (determine_buckets h a c m ''Multiple'') =
    (if c = ''Moderate'' \<or> c = ''Strong'' then [PS] else [])
      @ (if a = ''Strong'' then [RS, DI, FA, TP] else [DI, FA])"
  using assms by (simp add: determine_buckets_def base_order_def)

lemmas determine_general =
  determine_supply determine_affordability determine_quality determine_multiple

lemma determine_general_DI:
  assumes "c \<noteq> ''Minimal''" "m \<noteq> ''Weak''" "ch \<in> set challenge_codes"
  shows "DI \<in> set (fst (determine_buckets h a c m ch))"
proof -
  from assms(3) consider "ch = ''Supply''" | "ch = ''Affordability''"
    | "ch = ''Quality''" | "ch = ''Multiple''"
    by (auto simp add: challenge_codes_def)
  then show ?thesis
    by cases (simp_all add: determine_general [OF assms(1,2)])
qed

lemma determine_distinct: "distinct (fst (determine_buckets h a c m ch))"
proof (cases "c = ''Minimal''")
  case True
  then show ?thesis by (simp add: determine_minimal)
next
  case False
  show ?thesis
  proof (cases "m = ''Weak''")
    case True
    with False show ?thesis by (simp add: determine_weak)
  next
    case nw: False
    with False show ?thesis
      by (simp only: determine_buckets_def if_False Let_def fst_conv
            distinct_filter distinct_base_order)
  qed
qed

lemma determine_nonempty:
  assumes "ch \<in> set challenge_codes"
  shows "fst (determine_buckets h a c m ch) \<noteq> []"
proof (cases "c = ''Minimal''")
  case True
  then show ?thesis by (simp add: determine_minimal)
next
  case False
  show ?thesis
  proof (cases "m = ''Weak''")
    case True
    with False show ?thesis by (simp add: determine_weak)
  next
    case nw: False
    from determine_general_DI [OF False nw assms, of h a] show ?thesis by auto
  qed
qed

subsection \<open>The two loops of the overlay\<close>

lemma add_missing_distinct:
  "distinct xs \<Longrightarrow> add_missing acc xs = acc @ filter (\<lambda>x. x \<notin> set acc) xs"
proof (induction xs arbitrary: acc)
  case Nil
  show ?case by simp
next
  case (Cons x xs)
  have fresh: "x \<notin> set xs" and dxs: "distinct xs" using Cons.prems by simp_all
  show ?case
  proof (cases "x \<in> set acc")
    case True
    with Cons.IH [OF dxs, of acc] show ?thesis by simp
  next
    case False
    have "filter (\<lambda>y. y \<notin> set (acc @ [x])) xs = filter (\<lambda>y. y \<notin> set acc) xs"
      using fresh by (intro filter_cong) auto
    with Cons.IH [OF dxs, of "acc @ [x]"] False show ?thesis by simp
  qed
qed

lemma overlay_snd:
  "snd (apply_priority_overlay ch bs) =
     filter (\<lambda>b. b \<in> set bs)
       (if ch = ''Affordability'' then [FA, TP] else if ch = ''Supply'' then [RS, DI] else [])"
  by (simp add: apply_priority_overlay_def Let_def)

lemma overlay_snd_distinct: "distinct (snd (apply_priority_overlay ch bs))"
  by (simp add: overlay_snd)

lemma overlay_snd_subset: "set (snd (apply_priority_overlay ch bs)) \<subseteq> set bs"
  by (auto simp add: overlay_snd)

lemma overlay_fst:
  assumes "distinct bs"
  shows "fst (apply_priority_overlay ch bs) =
    snd (apply_priority_overlay ch bs)
      @ filter (\<lambda>b. b \<notin> set (snd (apply_priority_overlay ch bs))) bs"
proof -
  have "fst (apply_priority_overlay ch bs) =
      add_missing (add_missing [] (snd (apply_priority_overlay ch bs))) bs"
    by (simp add: apply_priority_overlay_def Let_def)
  also have "add_missing [] (snd (apply_priority_overlay ch bs)) = snd (apply_priority_overlay ch bs)"
    by (simp add: add_missing_distinct overlay_snd_distinct)
  finally show ?thesis by (simp add: add_missing_distinct assms)
qed

lemma overlay_mset:
  assumes "distinct bs"
  shows "mset (fst (apply_priority_overlay ch bs)) = mset bs"
proof -
  let ?P = "snd (apply_priority_overlay ch bs)"
  have "set (filter (\<lambda>b. b \<in> set ?P) bs) = set ?P"
    using overlay_snd_subset [of ch bs] by auto
  then have pulled: "mset ?P = mset (filter (\<lambda>b. b \<in> set ?P) bs)"
    using assms overlay_snd_distinct [of ch bs]
    by (intro iffD1 [OF set_eq_iff_mset_eq_distinct]) simp_all
  have "mset (fst (apply_priority_overlay ch bs))
      = mset ?P + mset (filter (\<lambda>b. b \<notin> set ?P) bs)"
    by (subst overlay_fst [OF assms]) (simp only: mset_append)
  also have "\<dots> = mset (filter (\<lambda>b. b \<in> set ?P) bs) + mset (filter (\<lambda>b. b \<notin> set ?P) bs)"
    by (simp only: pulled [symmetric])
  also have "\<dots> = mset bs"
    unfolding mset_filter by (rule multiset_partition [symmetric])
  finally show ?thesis .
qed

lemma overlay_set: "distinct bs \<Longrightarrow> set (fst (apply_priority_overlay ch bs)) = set bs"
  by (rule mset_eq_setD [OF overlay_mset])

lemma overlay_distinct: "distinct bs \<Longrightarrow> distinct (fst (apply_priority_overlay ch bs))"
  using mset_eq_imp_distinct_iff [OF overlay_mset, of bs ch] by simp

lemma overlay_again:
  assumes "distinct bs"
  shows "apply_priority_overlay ch (fst (apply_priority_overlay ch bs)) = apply_priority_overlay ch bs"
proof -
  let ?P = "snd (apply_priority_overlay ch bs)"
  let ?F = "fst (apply_priority_overlay ch bs)"
  have dF: "distinct ?F" by (rule overlay_distinct [OF assms])
  have P: "snd (apply_priority_overlay ch ?F) = ?P"
    by (simp add: overlay_snd overlay_set [OF assms])
  have "fst (apply_priority_overlay ch ?F) = ?P @ filter (\<lambda>b. b \<notin> set ?P) ?F"
    using overlay_fst [OF dF, of ch] by (simp only: P)
  also have "filter (\<lambda>b. b \<notin> set ?P) ?F = filter (\<lambda>b. b \<notin> set ?P) bs"
    by (subst overlay_fst [OF assms]) simp
  finally have "fst (apply_priority_overlay ch ?F) = ?F"
    by (simp add: overlay_fst [OF assms, symmetric])
  with P show ?thesis by (simp add: prod_eq_iff)
qed

subsection \<open>The claims\<close>

text \<open>
  C1. With capacity code \<^verbatim>\<open>"Minimal"\<close> the determiner returns exactly the one-element
  list with the foundation-building label and the minimal-capacity note, whatever the
  authority, market and challenge arguments are; the overlay then leaves that list as
  it is and returns an empty priority list.
\<close>

theorem minimal_capacity_absorption:
  "determine_buckets h a ''Minimal'' m ch =
     ([FB], ''Minimal capacity: prioritize low-cost/no-cost foundation-building activities.'')
   \<and> apply_priority_overlay ch (fst (determine_buckets h a ''Minimal'' m ch)) = ([FB], [])"
  by (simp add: determine_minimal apply_priority_overlay_def Let_def)

text \<open>
  C2. The handler stops without a recommendation exactly when the normalised
  authority code is \<^verbatim>\<open>"Unsure"\<close>: the result is then the stop with the warning and
  nothing else. For every other authority code it returns a complete result, whose
  final order, priority list and note are those of the determiner and the overlay on
  the normalised codes.
\<close>

theorem unsure_authority_halts:
  "(isl (generate_recommendations w h au ca ma ch)
      \<longleftrightarrow> fst (normalize_inputs au ca ma ch) = ''Unsure'')
   \<and> (fst (normalize_inputs au ca ma ch) = ''Unsure''
      \<longrightarrow> generate_recommendations w h au ca ma ch = Inl (UnresolvedAuthority w))
   \<and> (fst (normalize_inputs au ca ma ch) \<noteq> ''Unsure''
      \<longrightarrow> (case normalize_inputs au ca ma ch of
            (a, c, m, x) \<Rightarrow>
              \<exists>r. generate_recommendations w h au ca ma ch = Inr r
                \<and> r_inputs r = (a, c, m, x)
                \<and> (r_final r, r_priority r)
                    = apply_priority_overlay x (fst (determine_buckets h a c m x))
                \<and> r_note r = snd (determine_buckets h a c m x)))"
proof -
  obtain a c m x where n: "normalize_inputs au ca ma ch = (a, c, m, x)"
    by (cases "normalize_inputs au ca ma ch" rule: prod_cases4)
  obtain bs nt where d: "determine_buckets h a c m x = (bs, nt)"
    by (cases "determine_buckets h a c m x")
  obtain f p where o: "apply_priority_overlay x bs = (f, p)"
    by (cases "apply_priority_overlay x bs")
  show ?thesis
    by (simp add: generate_recommendations_def n d o)
qed

theorem unsure_authority_halts_witness:
  "generate_recommendations warning_v3 (\<lambda>s. 0) ''Unsure'' ''Strong Capacity'' ''Hot Market'' ''Supply Shortage''
     = Inl (UnresolvedAuthority warning_v3)
   \<and> (\<exists>r. generate_recommendations warning_v4 (\<lambda>s. 0) ''Strong Local Authority''
              ''Strong Capacity'' ''Hot Market'' ''Supply Shortage'' = Inr r
          \<and> r_final r = [RS, DI] \<and> r_priority r = [RS, DI])"
  using unsure_authority_halts [of warning_v3 "\<lambda>s. 0" "''Unsure''" "''Strong Capacity''"
      "''Hot Market''" "''Supply Shortage''"]
    unsure_authority_halts [of warning_v4 "\<lambda>s. 0" "''Strong Local Authority''" "''Strong Capacity''"
      "''Hot Market''" "''Supply Shortage''"]
  by (auto simp add: normalize_inputs_def determine_buckets_def base_order_def
      apply_priority_overlay_def Let_def)

text \<open>
  C3. With a capacity code other than \<^verbatim>\<open>"Minimal"\<close> and market code \<^verbatim>\<open>"Weak"\<close>, for
  every authority and challenge: the output contains the foundation-building label; it
  contains the preservation label exactly when the capacity is \<^verbatim>\<open>"Moderate"\<close> or
  \<^verbatim>\<open>"Strong"\<close> and the challenge is \<^verbatim>\<open>"Quality"\<close> or \<^verbatim>\<open>"Multiple"\<close>; no other category
  occurs; and the note is the weak-market note.
\<close>

theorem weak_market_floor:
  assumes "c \<noteq> ''Minimal''"
  shows "FB \<in> set (fst (determine_buckets h a c ''Weak'' ch))
    \<and> (PS \<in> set (fst (determine_buckets h a c ''Weak'' ch))
         \<longleftrightarrow> c \<in> {''Moderate'', ''Strong''} \<and> ch \<in> {''Quality'', ''Multiple''})
    \<and> set (fst (determine_buckets h a c ''Weak'' ch)) \<subseteq> {FB, PS}
    \<and> snd (determine_buckets h a c ''Weak'' ch) =
        ''Weak market: prioritize foundation-building; add preservation if capacity and quality risk exist.''"
  by (simp add: determine_weak [OF assms])

theorem weak_market_floor_witness:
  "fst (determine_buckets (\<lambda>s. 100 - length s) ''Limited'' ''Moderate'' ''Weak'' ''Quality'') = [FB, PS]
   \<and> FB \<in> set (fst (determine_buckets (\<lambda>s. 100 - length s) ''Limited'' ''Moderate'' ''Weak'' ''Quality''))
   \<and> PS \<in> set (fst (determine_buckets (\<lambda>s. 100 - length s) ''Limited'' ''Moderate'' ''Weak'' ''Quality''))"
  using weak_market_floor [of "''Moderate''" "\<lambda>s. 100 - length s" "''Limited''" "''Quality''"]
  by (simp add: determine_buckets_def py_sorted_def py_iter_def)

text \<open>
  C4. For every challenge code and every duplicate-free list of buckets, the priority
  list is a subsequence of the final order, the final order is a permutation of the
  input, it consists of the priority list followed by the other buckets in their
  input order, and for the challenges \<^verbatim>\<open>"Quality"\<close> and \<^verbatim>\<open>"Multiple"\<close> the priority list
  is empty.
\<close>

theorem priority_overlay_permutation:
  assumes "distinct buckets"
  shows "subseq (snd (apply_priority_overlay ch buckets)) (fst (apply_priority_overlay ch buckets))
    \<and> mset (fst (apply_priority_overlay ch buckets)) = mset buckets
    \<and> fst (apply_priority_overlay ch buckets) =
        snd (apply_priority_overlay ch buckets)
          @ filter (\<lambda>b. b \<notin> set (snd (apply_priority_overlay ch buckets))) buckets
    \<and> (ch \<in> {''Quality'', ''Multiple''} \<longrightarrow> snd (apply_priority_overlay ch buckets) = [])"
proof (intro conjI)
  show front: "fst (apply_priority_overlay ch buckets) =
      snd (apply_priority_overlay ch buckets)
        @ filter (\<lambda>b. b \<notin> set (snd (apply_priority_overlay ch buckets))) buckets"
    by (rule overlay_fst [OF assms])
  show "subseq (snd (apply_priority_overlay ch buckets)) (fst (apply_priority_overlay ch buckets))"
    by (subst front) (rule prefix_imp_subseq, simp)
  show "mset (fst (apply_priority_overlay ch buckets)) = mset buckets"
    by (rule overlay_mset [OF assms])
  show "ch \<in> {''Quality'', ''Multiple''} \<longrightarrow> snd (apply_priority_overlay ch buckets) = []"
    by (auto simp add: overlay_snd)
qed

theorem priority_overlay_permutation_witness:
  "distinct [PS, RS, DI, FA, TP]
   \<and> apply_priority_overlay ''Affordability'' [PS, RS, DI, FA, TP] = ([FA, TP, PS, RS, DI], [FA, TP])
   \<and> subseq [FA, TP] [FA, TP, PS, RS, DI]
   \<and> mset [FA, TP, PS, RS, DI] = mset [PS, RS, DI, FA, TP]
   \<and> snd (apply_priority_overlay ''Quality'' [PS, RS, DI, FA, TP]) = []"
proof -
  have d: "distinct [PS, RS, DI, FA, TP]" by simp
  have v: "apply_priority_overlay ''Affordability'' [PS, RS, DI, FA, TP] = ([FA, TP, PS, RS, DI], [FA, TP])"
    by (simp add: apply_priority_overlay_def)
  from priority_overlay_permutation [OF d, of "''Affordability''"]
    priority_overlay_permutation [OF d, of "''Quality''"] d v
  show ?thesis by simp
qed

text \<open>
  C5. For every combination of normalised codes with an authority other than
  \<^verbatim>\<open>"Unsure"\<close>, the determiner followed by the overlay yields a non-empty list without
  duplicates. Both functions are total, so a result exists for every combination.
\<close>

theorem pipeline_nonempty_duplicate_free:
  assumes "a \<in> set authority_codes" "a \<noteq> ''Unsure''" "c \<in> set capacity_codes"
    "m \<in> set market_codes" "ch \<in> set challenge_codes"
  shows "fst (apply_priority_overlay ch (fst (determine_buckets h a c m ch))) \<noteq> []
    \<and> distinct (fst (apply_priority_overlay ch (fst (determine_buckets h a c m ch))))"
proof -
  let ?base = "fst (determine_buckets h a c m ch)"
  have d: "distinct ?base" by (rule determine_distinct)
  have "set (fst (apply_priority_overlay ch ?base)) = set ?base"
    by (rule overlay_set [OF d])
  moreover have "?base \<noteq> []" by (rule determine_nonempty [OF assms(5)])
  ultimately have "fst (apply_priority_overlay ch ?base) \<noteq> []"
    by (metis set_empty)
  with overlay_distinct [OF d] show ?thesis by simp
qed

theorem pipeline_nonempty_duplicate_free_witness:
  "''Strong'' \<in> set authority_codes \<and> ''Strong'' \<noteq> ''Unsure'' \<and> ''Strong'' \<in> set capacity_codes
   \<and> ''Hot'' \<in> set market_codes \<and> ''Multiple'' \<in> set challenge_codes
   \<and> fst (apply_priority_overlay ''Multiple''
        (fst (determine_buckets (\<lambda>s. 0) ''Strong'' ''Strong'' ''Hot'' ''Multiple'')))
      = [PS, RS, DI, FA, TP]
   \<and> fst (apply_priority_overlay ''Multiple''
        (fst (determine_buckets (\<lambda>s. 0) ''Strong'' ''Strong'' ''Hot'' ''Multiple''))) \<noteq> []
   \<and> distinct (fst (apply_priority_overlay ''Multiple''
        (fst (determine_buckets (\<lambda>s. 0) ''Strong'' ''Strong'' ''Hot'' ''Multiple''))))"
proof -
  have 1: "''Strong'' \<in> set authority_codes" by (simp add: authority_codes_def)
  have 2: "''Strong'' \<noteq> ''Unsure''" by simp
  have 3: "''Strong'' \<in> set capacity_codes" by (simp add: capacity_codes_def)
  have 4: "''Hot'' \<in> set market_codes" by (simp add: market_codes_def)
  have 5: "''Multiple'' \<in> set challenge_codes" by (simp add: challenge_codes_def)
  have v: "fst (apply_priority_overlay ''Multiple''
        (fst (determine_buckets (\<lambda>s. 0) ''Strong'' ''Strong'' ''Hot'' ''Multiple'')))
      = [PS, RS, DI, FA, TP]"
    by (simp add: determine_buckets_def base_order_def apply_priority_overlay_def)
  from pipeline_nonempty_duplicate_free [OF 1 2 3 4 5, of "\<lambda>s. 0"] 1 2 3 4 5 v
  show ?thesis by simp
qed

text \<open>
  C6. For all four raw strings, each answer is classified by containment of a keyword
  as a contiguous substring, the first keyword found in the stated order winning and a
  default applying when none occurs: authority \<^verbatim>\<open>Unsure\<close>, \<^verbatim>\<open>Limited\<close>, else \<^verbatim>\<open>Strong\<close>;
  capacity \<^verbatim>\<open>Minimal\<close>, \<^verbatim>\<open>Moderate\<close>, else \<^verbatim>\<open>Strong\<close>; market \<^verbatim>\<open>Weak\<close>, \<^verbatim>\<open>Stable\<close>, else
  \<^verbatim>\<open>Hot\<close>; challenge \<^verbatim>\<open>Multiple\<close>, \<^verbatim>\<open>Quality\<close>, \<^verbatim>\<open>Affordability\<close>, else \<^verbatim>\<open>Supply\<close>. The
  function returns for every input, and every component of the result is one of the
  codes of its field.
\<close>

theorem normalize_inputs_classification:
  "normalize_inputs au ca ma ch =
     (if sublist ''Unsure'' au then ''Unsure''
      else if sublist ''Limited'' au then ''Limited'' else ''Strong'',
      if sublist ''Minimal'' ca then ''Minimal''
      else if sublist ''Moderate'' ca then ''Moderate'' else ''Strong'',
      if sublist ''Weak'' ma then ''Weak''
      else if sublist ''Stable'' ma then ''Stable'' else ''Hot'',
      if sublist ''Multiple'' ch then ''Multiple''
      else if sublist ''Quality'' ch then ''Quality''
      else if sublist ''Affordability'' ch then ''Affordability'' else ''Supply'')
   \<and> (case normalize_inputs au ca ma ch of
        (a, c, m, x) \<Rightarrow>
          a \<in> set authority_codes \<and> c \<in> set capacity_codes
          \<and> m \<in> set market_codes \<and> x \<in> set challenge_codes)"
  by (simp add: normalize_inputs_def py_in_sublist authority_codes_def capacity_codes_def
      market_codes_def challenge_codes_def)

theorem normalize_inputs_classification_witness:
  "normalize_inputs ''Unsure whether Limited'' ''minimal'' ''Weak/Declining Market'' ''Housing Quality''
     = (''Unsure'', ''Strong'', ''Weak'', ''Quality'')"
  using normalize_inputs_classification [of "''Unsure whether Limited''" "''minimal''"
      "''Weak/Declining Market''" "''Housing Quality''"]
  by (simp add: normalize_inputs_def)

text \<open>
  C7. The second scenario: the radio labels for limited authority, moderate capacity,
  stable market and affordability crisis normalise to
  \<^verbatim>\<open>(Limited, Moderate, Stable, Affordability)\<close>; the determiner returns the base buckets
  development incentives and financial assistance (no regulatory supply, no tenant
  protections); the overlay returns the priority list with financial assistance alone
  and the final order financial assistance, development incentives.
\<close>

theorem scenario_limited_affordability:
  "normalize_inputs
      ''Limited Local Authority (Dillon Rule - state restricts key areas; significant preemptions)''
      ''Moderate Capacity (limited budget, small or inexperienced staff)''
      ''Stable Market'' ''Affordability Crisis''
     = (''Limited'', ''Moderate'', ''Stable'', ''Affordability'')
   \<and> determine_buckets h ''Limited'' ''Moderate'' ''Stable'' ''Affordability''
     = ([DI, FA], ''Recommendation generated using core logic.'')
   \<and> apply_priority_overlay ''Affordability'' [DI, FA] = ([FA, DI], [FA])"
  by (simp add: normalize_inputs_def determine_buckets_def base_order_def
      apply_priority_overlay_def)

text \<open>
  C8. The results of the determiner and of the whole handler do not depend on the
  hash seed, the only hidden state the engine could observe: two runs on the same
  inputs return the same value, whatever the iteration order of the sets was in each.
  The witness takes two seeds under which the set of the weak-market branch is
  iterated in opposite orders.
\<close>

theorem pipeline_deterministic:
  "determine_buckets h1 a c m x = determine_buckets h2 a c m x
   \<and> generate_recommendations w h1 au ca ma ch = generate_recommendations w h2 au ca ma ch"
proof
  show "determine_buckets h1 a c m x = determine_buckets h2 a c m x"
    by (rule determine_seed_free)
  have "\<And>a c m x. determine_buckets h1 a c m x = determine_buckets h2 a c m x"
    by (rule determine_seed_free)
  then show "generate_recommendations w h1 au ca ma ch = generate_recommendations w h2 au ca ma ch"
    by (simp only: generate_recommendations_def)
qed

theorem pipeline_deterministic_witness:
  "py_iter (\<lambda>s. length s) {FB, PS} \<noteq> py_iter (\<lambda>s. 100 - length s) {FB, PS}
   \<and> generate_recommendations warning_v3 (\<lambda>s. length s)
        ''Limited Local Authority'' ''Moderate Capacity'' ''Weak/Declining Market'' ''Housing Quality''
     = generate_recommendations warning_v3 (\<lambda>s. 100 - length s)
        ''Limited Local Authority'' ''Moderate Capacity'' ''Weak/Declining Market'' ''Housing Quality''"
  using pipeline_deterministic [of "\<lambda>s. length s" _ _ _ _ "\<lambda>s. 100 - length s"]
  by (simp add: py_iter_def)

text \<open>
  C9. In the general case (capacity code not \<^verbatim>\<open>"Minimal"\<close>, market code not \<^verbatim>\<open>"Weak"\<close>),
  for every authority argument, \<^verbatim>\<open>"Unsure"\<close> included, and each of the four challenge
  codes, the output of the determiner contains the development-incentives label.
\<close>

theorem development_incentives_general_case:
  assumes "c \<noteq> ''Minimal''" "m \<noteq> ''Weak''" "ch \<in> set challenge_codes"
  shows "DI \<in> set (fst (determine_buckets h a c m ch))"
  using assms by (rule determine_general_DI)

theorem development_incentives_general_case_witness:
  "''Strong'' \<noteq> ''Minimal'' \<and> ''Hot'' \<noteq> ''Weak'' \<and> ''Quality'' \<in> set challenge_codes
   \<and> fst (determine_buckets (\<lambda>s. 0) ''Unsure'' ''Strong'' ''Hot'' ''Quality'') = [PS, DI]
   \<and> DI \<in> set (fst (determine_buckets (\<lambda>s. 0) ''Unsure'' ''Strong'' ''Hot'' ''Quality''))"
proof -
  have 1: "''Strong'' \<noteq> ''Minimal''" by simp
  have 2: "''Hot'' \<noteq> ''Weak''" by simp
  have 3: "''Quality'' \<in> set challenge_codes" by (simp add: challenge_codes_def)
  have v: "fst (determine_buckets (\<lambda>s. 0) ''Unsure'' ''Strong'' ''Hot'' ''Quality'') = [PS, DI]"
    by (simp add: determine_buckets_def base_order_def)
  from development_incentives_general_case [OF 1 2 3, of "\<lambda>s. 0" "''Unsure''"] 1 2 3 v
  show ?thesis by simp
qed

text \<open>
  C10. For every challenge code and every duplicate-free list of buckets, running the
  overlay again on its own final order returns the same final order and the same
  priority list; for the challenges \<^verbatim>\<open>"Quality"\<close> and \<^verbatim>\<open>"Multiple"\<close> the final order is
  the input list.
\<close>

theorem overlay_idempotent:
  assumes "distinct buckets"
  shows "apply_priority_overlay ch (fst (apply_priority_overlay ch buckets))
      = apply_priority_overlay ch buckets
    \<and> (ch \<in> {''Quality'', ''Multiple''} \<longrightarrow> fst (apply_priority_overlay ch buckets) = buckets)"
proof
  show "apply_priority_overlay ch (fst (apply_priority_overlay ch buckets))
      = apply_priority_overlay ch buckets"
    by (rule overlay_again [OF assms])
  show "ch \<in> {''Quality'', ''Multiple''} \<longrightarrow> fst (apply_priority_overlay ch buckets) = buckets"
  proof
    assume "ch \<in> {''Quality'', ''Multiple''}"
    then have "snd (apply_priority_overlay ch buckets) = []"
      by (auto simp add: overlay_snd)
    with overlay_fst [OF assms, of ch] show "fst (apply_priority_overlay ch buckets) = buckets"
      by simp
  qed
qed

theorem overlay_idempotent_witness:
  "distinct [RS, DI, FA, TP]
   \<and> apply_priority_overlay ''Affordability'' [RS, DI, FA, TP] = ([FA, TP, RS, DI], [FA, TP])
   \<and> apply_priority_overlay ''Affordability'' [FA, TP, RS, DI] = ([FA, TP, RS, DI], [FA, TP])
   \<and> fst (apply_priority_overlay ''Quality'' [RS, DI, FA, TP]) = [RS, DI, FA, TP]"
proof -
  have d: "distinct [RS, DI, FA, TP]" by simp
  have v: "apply_priority_overlay ''Affordability'' [RS, DI, FA, TP] = ([FA, TP, RS, DI], [FA, TP])"
    by (simp add: apply_priority_overlay_def)
  from overlay_idempotent [OF d, of "''Affordability''"] overlay_idempotent [OF d, of "''Quality''"] d v
  show ?thesis by simp
qed

end
